theory Spec2Isabelle
  imports Complex_Main
begin

section \<open>Data model of the FiPulse chart widget (widget.ts)\<close>

text \<open>
  JavaScript numbers that carry prices and volumes are modelled as \<open>real\<close>: every
  expression below has the same operator tree as the source expression, and rounding of
  IEEE doubles is outside the model. Timestamps are UTC seconds and are modelled as
  \<open>int\<close>; \<open>Math.floor (t / 60)\<close> on them is integer division, which rounds down.
\<close>

text \<open>The SDK's \<open>Candle\<close>. \<open>TransactionCount\<close> may be absent (the source reads it as
  \<open>TransactionCount || 0\<close>).\<close>

record candle =
  Timestamp :: int
  OpenPrice :: real
  HighPrice :: real
  LowPrice :: real
  ClosePrice :: real
  VolumeIn :: real
  VolumeOut :: real
  TransactionCount :: "int option"

text \<open>The SDK's \<open>RealTimeTrade\<close>.\<close>

record trade =
  Price :: real
  Amount :: real
  USD :: real
  TradeTime :: int

text \<open>The SDK's \<open>ChartData\<close>.\<close>

record chart_data =
  candles :: "candle list"
  lastUpdate :: "int option"
  isLoading :: bool
  error :: "string option"

datatype price_series_type = Candle | Line

datatype theme = Light | Dark

datatype legend_style = LegendNone | Simple | Complex

datatype html_element = HtmlElement string

datatype container = Selector string | Element html_element

text \<open>An optional key of an options object: the caller omits it, or passes it, and then
  its value may be \<open>undefined\<close> (\<open>None\<close>), which the declared types \<open>showVolume?: boolean\<close>,
  \<open>theme?: 'light' | 'dark'\<close> and so on admit.\<close>

datatype 'a option_key = Omitted | Passed "'a option"

text \<open>\<open>WidgetOptions\<close> as the caller supplies them: the four configuration keys that
  the constructor defaults are optional. A callback is modelled by whether it was
  supplied; calling it is an effect.\<close>

record widget_options =
  container_opt :: container
  tokenId_opt :: string
  symbol_opt :: "string option"
  height_opt :: "real option"
  width_opt :: "real option"
  showVolume_opt :: "bool option_key"
  priceSeriesType_opt :: "price_series_type option_key"
  theme_opt :: "theme option_key"
  legendStyle_opt :: "legend_style option_key"
  onError_opt :: bool
  onDataUpdate_opt :: bool
  onTrade_opt :: bool
  onConnectionChange_opt :: bool

text \<open>\<open>this.options\<close>: the options after the constructor has merged the defaults. The
  object spread takes a default only for a key that the caller omitted; a key passed
  with the value \<open>undefined\<close> stays \<open>undefined\<close> (\<open>None\<close>).\<close>

record options =
  container :: container
  tokenId :: string
  symbol :: "string option"
  height :: "real option"
  width :: "real option"
  showVolume :: "bool option"
  priceSeriesType :: "price_series_type option"
  theme :: "theme option"
  legendStyle :: "legend_style option"
  onError :: bool
  onDataUpdate :: bool
  onTrade :: bool
  onConnectionChange :: bool

text \<open>Handles of the two collaborators. A handle is an opaque reference; only whether
  the widget holds one (\<open>Some\<close>) or \<open>null\<close> (\<open>None\<close>) matters to the widget's code.\<close>

datatype chart_api = ChartApi html_element

datatype series_api = CandlestickSeries | LineSeries | HistogramSeries

datatype sdk_api = CryptoChartSDK

datatype legend_element = LegendElement

text \<open>The three point shapes handed to the charting library.\<close>

record bar =
  bar_time :: int
  bar_open :: real
  bar_high :: real
  bar_low :: real
  bar_close :: real

record line_point =
  line_time :: int
  line_value :: real

record volume_point =
  vol_time :: int
  vol_value :: real
  vol_color :: string

text \<open>What \<open>updateLegend\<close> writes into the legend element. The markup and the colours are
  not modelled; the record keeps the values that the template interpolates, before
  \<open>formatPrice\<close>, \<open>formatPercentage\<close> and \<open>formatVolume\<close> turn them into text. The three
  optional fields of the hover block are present exactly when a matching candle was
  found.\<close>

record hover_view =
  hv_open :: real
  hv_high :: real
  hv_low :: real
  hv_close :: real
  hv_volume :: "real option"
  hv_candleChange :: "real option"
  hv_candleFluctuation :: "real option"

record legend =
  lg_tokenName :: string
  lg_price :: "real option"
  lg_rate24h :: real
  lg_ohlc :: "hover_view option"

text \<open>The parameter of the crosshair-move callback: \<open>time\<close> and \<open>seriesData\<close> (a map from
  series to the data item under the crosshair) may each be missing.\<close>

record crosshair =
  cross_time :: "int option"
  cross_seriesData :: "(series_api \<Rightarrow> bar option) option"

datatype js_error = Error string | TypeError string | SyntaxError string

text \<open>Everything the widget does to its collaborators, to the DOM and to the caller's
  callbacks is recorded as an effect, in program order.\<close>

datatype effect =
    SdkConstruct
  | SdkConnectWebSocket
  | SdkInitialize string
  | SdkSubscribe string
  | SdkDestroy
  | SetTimeout nat
  | CreateChart html_element
  | AddSeries series_api
  | ChartRemove
  | ChartResize "real option" "real option"
  | CandlestickSetData "bar list"
  | CandlestickUpdate bar
  | LineSetData "line_point list"
  | LineUpdate line_point
  | VolumeSetData "volume_point list"
  | VolumeUpdate volume_point
  | FitContent
  | ScrollToRealTime
  | AppendLegendElement html_element
  | SubscribeCrosshairMove
  | SetLegendHtml legend
  | CallOnError string
  | CallOnDataUpdate chart_data
  | CallOnTrade trade
  | ConsoleLog string
  | UnhandledRejection js_error

text \<open>The private fields of \<open>FiPulseChartWidget\<close>.\<close>

record widget =
  chart :: "chart_api option"
  legendElement :: "legend_element option"
  candlestickSeries :: "series_api option"
  lineSeries :: "series_api option"
  volumeSeries :: "series_api option"
  sdk :: "sdk_api option"
  chartData :: chart_data
  currentPrice :: "real option"
  priceChange :: real
  previousCandleCount :: nat
  isInitialLoad :: bool
  options :: options
  previousPrice :: real

section \<open>Data adapter\<close>

text \<open>
  The environment's \<open>Date.prototype.getTimezoneOffset\<close> is a parameter \<open>tz\<close>: it maps an
  instant, in milliseconds since the epoch, to the local offset in minutes. Each of the
  three converters and the hover match evaluate
  \<open>new Date(utcTimestamp * 1000).getTimezoneOffset() * 60\<close> and subtract it.
\<close>

definition timezoneOffsetSeconds :: "(int \<Rightarrow> int) \<Rightarrow> int \<Rightarrow> int" where
  "timezoneOffsetSeconds tz utcTimestamp = tz (utcTimestamp * 1000) * 60"

definition localTimestamp :: "(int \<Rightarrow> int) \<Rightarrow> int \<Rightarrow> int" where
  "localTimestamp tz utcTimestamp = utcTimestamp - timezoneOffsetSeconds tz utcTimestamp"

definition convertCandleToChartData :: "(int \<Rightarrow> int) \<Rightarrow> candle \<Rightarrow> bar" where
  "convertCandleToChartData tz c =
     \<lparr>bar_time = localTimestamp tz (Timestamp c),
      bar_open = OpenPrice c,
      bar_high = HighPrice c,
      bar_low = LowPrice c,
      bar_close = ClosePrice c\<rparr>"

definition convertCandleToAreaData :: "(int \<Rightarrow> int) \<Rightarrow> candle \<Rightarrow> line_point" where
  "convertCandleToAreaData tz c =
     \<lparr>line_time = localTimestamp tz (Timestamp c),
      line_value = ClosePrice c\<rparr>"

definition convertCandleToVolumeData ::
    "(int \<Rightarrow> int) \<Rightarrow> theme option \<Rightarrow> candle \<Rightarrow> volume_point" where
  "convertCandleToVolumeData tz th c =
     (let isUp = (ClosePrice c \<ge> OpenPrice c);
          isDark = (th = Some Dark);
          color = (if isUp then (if isDark then ''#00d4aa80'' else ''#26a69a40'')
                   else (if isDark then ''#ff6b6b80'' else ''#ef535040''))
      in \<lparr>vol_time = localTimestamp tz (Timestamp c),
          vol_value = VolumeIn c,
          vol_color = color\<rparr>)"

section \<open>Legend renderer\<close>

text \<open>The hover match of \<open>updateLegend\<close>: \<open>Array.prototype.find\<close> returns the first candle,
  in sequence order, whose locally shifted timestamp is less than 60 seconds away from the
  crosshair time.\<close>

definition matchingCandle :: "(int \<Rightarrow> int) \<Rightarrow> candle list \<Rightarrow> int \<Rightarrow> candle option" where
  "matchingCandle tz cs crosshairTime =
     find (\<lambda>candle. \<bar>localTimestamp tz (Timestamp candle) - crosshairTime\<bar> < 60) cs"

definition candleChange :: "candle \<Rightarrow> real" where
  "candleChange m =
     (if OpenPrice m > 0 then ((ClosePrice m - OpenPrice m) / OpenPrice m) * 100 else 0)"

definition candleFluctuation :: "candle \<Rightarrow> real" where
  "candleFluctuation m =
     (if OpenPrice m > 0 then ((HighPrice m - LowPrice m) / OpenPrice m) * 100 else 0)"

text \<open>The block built when the crosshair carries data of the candlestick series.\<close>

definition ohlcHtml :: "(int \<Rightarrow> int) \<Rightarrow> candle list \<Rightarrow> int \<Rightarrow> bar \<Rightarrow> hover_view" where
  "ohlcHtml tz cs crosshairTime data =
     (let m = matchingCandle tz cs crosshairTime
      in \<lparr>hv_open = bar_open data,
          hv_high = bar_high data,
          hv_low = bar_low data,
          hv_close = bar_close data,
          hv_volume = map_option VolumeIn m,
          hv_candleChange = map_option candleChange m,
          hv_candleFluctuation = map_option candleFluctuation m\<rparr>)"

text \<open>\<open>crosshairParam && crosshairParam.time && crosshairParam.seriesData &&
  this.candlestickSeries\<close>, then \<open>seriesData.get(this.candlestickSeries)\<close>. The time \<open>0\<close> is
  falsy in JavaScript.\<close>

definition hoveredData :: "widget \<Rightarrow> crosshair option \<Rightarrow> (int \<times> bar) option" where
  "hoveredData s crosshairParam =
     (case crosshairParam of
        None \<Rightarrow> None
      | Some p \<Rightarrow>
          (case cross_time p of
             None \<Rightarrow> None
           | Some t \<Rightarrow>
               if t = 0 then None
               else (case cross_seriesData p of
                       None \<Rightarrow> None
                     | Some seriesData \<Rightarrow>
                         (case candlestickSeries s of
                            None \<Rightarrow> None
                          | Some series \<Rightarrow>
                              (case seriesData series of
                                 None \<Rightarrow> None
                               | Some data \<Rightarrow> Some (t, data))))))"

definition updateLegend :: "(int \<Rightarrow> int) \<Rightarrow> widget \<Rightarrow> crosshair option \<Rightarrow> effect list" where
  "updateLegend tz s crosshairParam =
     (if legendElement s = None \<or> chart s = None then []
      else
        let tokenName = (case symbol (options s) of
                           None \<Rightarrow> ''Token''
                         | Some n \<Rightarrow> if n = [] then ''Token'' else n);
            ohlc = (case hoveredData s crosshairParam of
                      None \<Rightarrow> None
                    | Some (crosshairTime, data) \<Rightarrow>
                        Some (ohlcHtml tz (candles (chartData s)) crosshairTime data))
        in [SetLegendHtml \<lparr>lg_tokenName = tokenName,
                           lg_price = currentPrice s,
                           lg_rate24h = priceChange s,
                           lg_ohlc = ohlc\<rparr>])"

section \<open>Update reconciler\<close>

definition updateChart :: "(int \<Rightarrow> int) \<Rightarrow> widget \<Rightarrow> chart_data \<Rightarrow> effect list" where
  "updateChart tz s data =
     (if length (candles data) = 0 then []
      else
        (if priceSeriesType (options s) = Some Candle \<and> candlestickSeries s \<noteq> None
         then [CandlestickSetData (map (convertCandleToChartData tz) (candles data))]
         else if priceSeriesType (options s) = Some Line \<and> lineSeries s \<noteq> None
         then [LineSetData (map (convertCandleToAreaData tz) (candles data))]
         else [])
        @ (if showVolume (options s) = Some True \<and> volumeSeries s \<noteq> None
           then [VolumeSetData
                   (map (convertCandleToVolumeData tz (theme (options s))) (candles data))]
           else [])
        @ (if chart s \<noteq> None \<and> length (candles data) > 0 then [FitContent] else []))"

text \<open>\<open>updateSingleCandle\<close> tests \<open>this.options.theme && this.volumeSeries\<close>, where
  \<open>updateChart\<close> tests \<open>this.options.showVolume && this.volumeSeries\<close>. Both values of
  \<open>theme\<close> are non-empty strings, hence truthy; \<open>undefined\<close> is falsy.\<close>

definition truthy_theme :: "theme option \<Rightarrow> bool" where
  "truthy_theme th = (case th of None \<Rightarrow> False | Some Light \<Rightarrow> True | Some Dark \<Rightarrow> True)"

definition updateSingleCandle :: "(int \<Rightarrow> int) \<Rightarrow> widget \<Rightarrow> candle \<Rightarrow> widget \<times> effect list" where
  "updateSingleCandle tz s c =
     (let s1 = s\<lparr>currentPrice := Some (ClosePrice c)\<rparr>
      in (s1,
          (if priceSeriesType (options s1) = Some Candle \<and> candlestickSeries s1 \<noteq> None
           then [CandlestickUpdate (convertCandleToChartData tz c)]
           else if priceSeriesType (options s1) = Some Line \<and> lineSeries s1 \<noteq> None
           then [LineUpdate (convertCandleToAreaData tz c)]
           else [])
          @ (if truthy_theme (theme (options s1)) \<and> volumeSeries s1 \<noteq> None
             then [VolumeUpdate (convertCandleToVolumeData tz (theme (options s1)) c)]
             else [])
          @ (if chart s1 \<noteq> None then [ScrollToRealTime] else [])))"

definition MAX_INCREMENTAL_CANDLES :: int where
  "MAX_INCREMENTAL_CANDLES = 50"

definition handleChartUpdate :: "(int \<Rightarrow> int) \<Rightarrow> widget \<Rightarrow> chart_data \<Rightarrow> widget \<times> effect list" where
  "handleChartUpdate tz s0 data =
     (let s1 = s0\<lparr>chartData := data\<rparr>;
          previousCount = int (previousCandleCount s1);
          currentCount = int (length (candles data));
          candleCountDiff = currentCount - previousCount;
          isIncrementalUpdate = (\<not> isInitialLoad s1 \<and> currentCount > 0
                                 \<and> candleCountDiff \<ge> 0
                                 \<and> candleCountDiff \<le> MAX_INCREMENTAL_CANDLES);
          (s2, e2) = (if isIncrementalUpdate \<and> length (candles data) > 0
                      then (if candleCountDiff = 0 \<or> candleCountDiff = 1
                            then updateSingleCandle tz s1 (last (candles data))
                            else (s1, updateChart tz s1 data))
                      else (s1\<lparr>isInitialLoad := False\<rparr>, updateChart tz s1 data));
          s3 = s2\<lparr>previousCandleCount := length (candles data)\<rparr>;
          (s4, e4) = (if length (candles data) > 0
                      then (let latestCandle = last (candles data);
                                s3a = s3\<lparr>currentPrice := Some (ClosePrice latestCandle)\<rparr>;
                                s3b = (if length (candles data) > 1
                                       then (let firstCandle = hd (candles data)
                                             in if OpenPrice firstCandle > 0
                                                then s3a\<lparr>priceChange :=
                                                       ((ClosePrice latestCandle - OpenPrice firstCandle)
                                                          / OpenPrice firstCandle) * 100\<rparr>
                                                else s3a)
                                       else s3a)
                            in (s3b, if legendStyle (options s3b) \<noteq> Some LegendNone
                                     then updateLegend tz s3b None else []))
                      else (s3, []));
          e5 = (if onDataUpdate (options s4) then [CallOnDataUpdate data] else [])
      in (s4, e2 @ e4 @ e5))"

definition handleTrade :: "(int \<Rightarrow> int) \<Rightarrow> widget \<Rightarrow> trade \<Rightarrow> widget \<times> effect list" where
  "handleTrade tz s0 t =
     (let s1 = s0\<lparr>currentPrice := Some (Price t), previousPrice := Price t\<rparr>;
          e1 = (if legendStyle (options s1) \<noteq> Some LegendNone
                then updateLegend tz s1 None else []);
          (s2, e2) =
            (if length (candles (chartData s1)) > 0
             then (let latestCandle = last (candles (chartData s1));
                       tradeMinuteTimestamp = (TradeTime t div 60) * 60;
                       latestCandleTimestamp = Timestamp latestCandle;
                       timeDiff = tradeMinuteTimestamp - latestCandleTimestamp
                   in if timeDiff \<ge> 0 \<and> timeDiff \<le> 120
                      then (let updatedCandle = latestCandle
                                  \<lparr>ClosePrice := Price t,
                                   HighPrice := max (HighPrice latestCandle) (Price t),
                                   LowPrice := min (LowPrice latestCandle) (Price t),
                                   VolumeIn := VolumeIn latestCandle + USD t,
                                   VolumeOut := VolumeOut latestCandle + Amount t,
                                   TransactionCount :=
                                     Some ((case TransactionCount latestCandle of
                                              None \<Rightarrow> 0 | Some n \<Rightarrow> n) + 1)\<rparr>;
                                s1a = s1\<lparr>chartData := (chartData s1)
                                        \<lparr>candles := (candles (chartData s1))
                                           [length (candles (chartData s1)) - 1 := updatedCandle]\<rparr>\<rparr>
                            in updateSingleCandle tz s1a updatedCandle)
                      else (s1, []))
             else (s1, []));
          e3 = (if onTrade (options s2) then [CallOnTrade t] else [])
      in (s2, e1 @ e2 @ e3))"

text \<open>The handler registered with \<open>subscribeCrosshairMove\<close>.\<close>

definition crosshairMove :: "(int \<Rightarrow> int) \<Rightarrow> widget \<Rightarrow> crosshair option \<Rightarrow> effect list" where
  "crosshairMove tz s param =
     (if legendStyle (options s) = Some Complex then updateLegend tz s param else [])"

section \<open>Widget controller\<close>

text \<open>The part of the DOM that \<open>initializeChart\<close> consults. \<open>querySelector\<close> raises a
  \<open>SyntaxError\<close> on a string that is not a selector.\<close>

record dom =
  getElementById :: "string \<Rightarrow> html_element option"
  querySelector :: "string \<Rightarrow> js_error + html_element option"

text \<open>\<open>String.prototype.replace('#', '')\<close> removes the first \<open>#\<close> only.\<close>

fun replace_hash :: "string \<Rightarrow> string" where
  "replace_hash [] = []"
| "replace_hash (c # cs) = (if c = CHR ''#'' then cs else c # replace_hash cs)"

text \<open>\<open>getElementById(...) || querySelector(...)\<close> for a string, the element itself
  otherwise.\<close>

definition resolveContainer :: "dom \<Rightarrow> container \<Rightarrow> js_error + html_element option" where
  "resolveContainer d c =
     (case c of
        Selector sel \<Rightarrow>
          (case getElementById d (replace_hash sel) of
             Some el \<Rightarrow> Inr (Some el)
           | None \<Rightarrow> querySelector d sel)
      | Element el \<Rightarrow> Inr (Some el))"

text \<open>The text that the template literal of the error message interpolates.\<close>

definition containerText :: "container \<Rightarrow> string" where
  "containerText c =
     (case c of Selector sel \<Rightarrow> sel | Element el \<Rightarrow> ''[object HTMLElement]'')"

text \<open>\<open>initializeChart\<close> resolves the container, creates the chart, the price series that
  \<open>priceSeriesType\<close> selects, the volume series when \<open>showVolume\<close> is set, and the legend
  element with the crosshair subscription when \<open>legendStyle\<close> is \<open>simple\<close> or \<open>complex\<close>; it
  ends with
  \<open>updateLegend(null)\<close>. The colours, the sizes and the pane stretch factors that it passes
  to the charting library are not modelled.\<close>

definition initializeChart :: "dom \<Rightarrow> (int \<Rightarrow> int) \<Rightarrow> widget \<Rightarrow> js_error + widget \<times> effect list" where
  "initializeChart d tz s =
     (case resolveContainer d (container (options s)) of
        Inl e \<Rightarrow> Inl e
      | Inr None \<Rightarrow>
          Inl (Error (''Chart container not found: '' @ containerText (container (options s))))
      | Inr (Some el) \<Rightarrow>
          (let s1 = s\<lparr>chart := Some (ChartApi el)\<rparr>;
               (s2, e2) = (if priceSeriesType (options s1) = Some Candle
                           then (s1\<lparr>candlestickSeries := Some CandlestickSeries\<rparr>,
                                 [AddSeries CandlestickSeries])
                           else if priceSeriesType (options s1) = Some Line
                           then (s1\<lparr>lineSeries := Some LineSeries\<rparr>,
                                 [AddSeries LineSeries])
                           else (s1, []));
               (s3, e3) = (if showVolume (options s2) = Some True
                           then (s2\<lparr>volumeSeries := Some HistogramSeries\<rparr>,
                                 [AddSeries HistogramSeries])
                           else (s2, []));
               (s4, e4) = (if legendStyle (options s3) = Some Simple
                              \<or> legendStyle (options s3) = Some Complex
                           then (s3\<lparr>legendElement := Some LegendElement\<rparr>,
                                 [AppendLegendElement el, SubscribeCrosshairMove])
                           else (s3, []))
           in Inr (s4, [CreateChart el] @ e2 @ e3 @ e4 @ updateLegend tz s4 None)))"

definition initializeSDK :: "widget \<Rightarrow> widget \<times> effect list" where
  "initializeSDK s = (s\<lparr>sdk := Some CryptoChartSDK\<rparr>, [SdkConstruct, SdkConnectWebSocket])"

text \<open>How the awaited \<open>sdk.initialize(tokenId, true)\<close> settles: it resolves, or it rejects
  with an \<open>Error\<close> carrying a message, or with some other value.\<close>

datatype sdk_initialize = Resolves | RejectsError string | RejectsOther

definition loadTokenData :: "widget \<Rightarrow> string \<Rightarrow> sdk_initialize \<Rightarrow> widget \<times> effect list" where
  "loadTokenData s tok outcome =
     (if sdk s = None then (s, [])
      else
        (let s1 = s\<lparr>isInitialLoad := True,
                    previousCandleCount := 0,
                    chartData := \<lparr>candles = [], lastUpdate = None,
                                   isLoading = True, error = None\<rparr>\<rparr>
         in case outcome of
              Resolves \<Rightarrow> (s1, [SdkInitialize tok, SetTimeout 1000])
            | _ \<Rightarrow>
                (let errorMessage = (case outcome of
                                       RejectsError m \<Rightarrow> m
                                     | _ \<Rightarrow> ''Failed to load token data'')
                 in (s1\<lparr>chartData := (chartData s1)\<lparr>error := Some errorMessage,
                                                       isLoading := False\<rparr>\<rparr>,
                     [SdkInitialize tok]
                     @ (if onError (options s1) then [CallOnError errorMessage] else [])))))"

text \<open>One run of \<open>checkConnection\<close> observes the connection status and then, when not
  connected, the clock. The runs that a wait makes are given as the list of these
  observations; each run after the first happens 100 ms of timer delay after the previous
  one. When the list ends before the wait has resolved the wait is still pending:
  the result is \<open>None\<close>.\<close>

record poll =
  isConnected :: bool
  now :: int

fun checkConnection :: "int \<Rightarrow> int \<Rightarrow> poll list \<Rightarrow> bool option" where
  "checkConnection startTime maxWaitMs [] = None"
| "checkConnection startTime maxWaitMs (p # ps) =
     (if isConnected p then Some True
      else if now p - startTime > maxWaitMs then Some False
      else checkConnection startTime maxWaitMs ps)"

text \<open>The widget always calls the wait with the default \<open>maxWaitMs = 5000\<close>.\<close>

definition waitForWebSocketConnection :: "int \<Rightarrow> poll list \<Rightarrow> bool option" where
  "waitForWebSocketConnection startTime polls = checkConnection startTime 5000 polls"

text \<open>The callback that \<open>loadTokenData\<close> schedules with a delay of 1000 ms. \<open>s\<close> is the
  widget when the timer fires, \<open>s'\<close> the widget when the wait resolves (\<open>this.sdk\<close> is read
  again after the \<open>await\<close>). The callback assigns no field of the widget: the widget it
  returns is the one it found. The outer \<open>None\<close> means that the wait is still pending.\<close>

definition subscribeWhenConnected ::
    "widget \<Rightarrow> string \<Rightarrow> int \<Rightarrow> poll list \<Rightarrow> widget
       \<Rightarrow> (js_error + widget \<times> effect list) option" where
  "subscribeWhenConnected s tok startTime polls s' =
     (if sdk s = None then Some (Inr (s, []))
      else (case waitForWebSocketConnection startTime polls of
              None \<Rightarrow> None
            | Some connectedNow \<Rightarrow>
                Some (if connectedNow
                      then (case sdk s' of
                              None \<Rightarrow> Inl (TypeError ''Cannot read properties of null'')
                            | Some k \<Rightarrow> Inr (s', [SdkSubscribe tok]))
                      else Inr (s', []))))"

text \<open>A settled promise.\<close>

datatype 'a promise = Fulfilled 'a | Rejected js_error

text \<open>\<open>initialize\<close> is an async function: an exception raised in its body rejects the
  promise it returns, and the assignments made before the exception stay. The result is
  the widget and the effects once the promise has settled, and the promise.\<close>

definition initialize ::
    "dom \<Rightarrow> (int \<Rightarrow> int) \<Rightarrow> sdk_initialize \<Rightarrow> widget \<Rightarrow> (widget \<times> effect list) \<times> unit promise" where
  "initialize d tz outcome s =
     (let (s1, e1) = initializeSDK s
      in case initializeChart d tz s1 of
           Inl err \<Rightarrow> ((s1, e1), Rejected err)
         | Inr (s2, e2) \<Rightarrow>
             if sdk s2 \<noteq> None \<and> tokenId (options s2) \<noteq> []
             then (let (s3, e3) = loadTokenData s2 (tokenId (options s2)) outcome
                   in ((s3, e1 @ e2 @ e3), Fulfilled ()))
             else ((s2, e1 @ e2), Fulfilled ()))"

text \<open>The object spread \<open>{showVolume: false, priceSeriesType: 'candle', theme: 'light',
  legendStyle: 'complex', ...options}\<close>: an own key of \<open>options\<close> overrides the default also
  when its value is \<open>undefined\<close>.\<close>

definition withDefaults :: "widget_options \<Rightarrow> options" where
  "withDefaults opts =
     \<lparr>container = container_opt opts,
      tokenId = tokenId_opt opts,
      symbol = symbol_opt opts,
      height = height_opt opts,
      width = width_opt opts,
      showVolume = (case showVolume_opt opts of Omitted \<Rightarrow> Some False | Passed v \<Rightarrow> v),
      priceSeriesType = (case priceSeriesType_opt opts of
                           Omitted \<Rightarrow> Some Candle | Passed v \<Rightarrow> v),
      theme = (case theme_opt opts of Omitted \<Rightarrow> Some Light | Passed v \<Rightarrow> v),
      legendStyle = (case legendStyle_opt opts of Omitted \<Rightarrow> Some Complex | Passed v \<Rightarrow> v),
      onError = onError_opt opts,
      onDataUpdate = onDataUpdate_opt opts,
      onTrade = onTrade_opt opts,
      onConnectionChange = onConnectionChange_opt opts\<rparr>"

text \<open>The field initialisers of the class.\<close>

definition newWidget :: "options \<Rightarrow> widget" where
  "newWidget opts =
     \<lparr>chart = None,
      legendElement = None,
      candlestickSeries = None,
      lineSeries = None,
      volumeSeries = None,
      sdk = None,
      chartData = \<lparr>candles = [], lastUpdate = None, isLoading = True, error = None\<rparr>,
      currentPrice = None,
      priceChange = 0,
      previousCandleCount = 0,
      isInitialLoad = True,
      options = opts,
      previousPrice = 0\<rparr>"

text \<open>
  \<open>new FiPulseChartWidget(options)\<close>, which is all that \<open>FiPulseWidget.create\<close> does. The
  constructor's body assigns \<open>this.options\<close> and evaluates
  \<open>this.initialize().then(r => console.log(...))\<close>: it contains no \<open>throw\<close>, and whatever
  \<open>initialize\<close> raises is held by its promise, on which only a fulfilment handler is
  installed. What \<open>new\<close> evaluates to is therefore always \<open>Inr\<close> of the object; the
  widget and the effects are given as they are once \<open>initialize\<close> has settled.
\<close>

definition create ::
    "dom \<Rightarrow> (int \<Rightarrow> int) \<Rightarrow> sdk_initialize \<Rightarrow> widget_options \<Rightarrow> js_error + widget \<times> effect list" where
  "create d tz outcome opts =
     (let ((s, es), p) = initialize d tz outcome (newWidget (withDefaults opts))
      in Inr (s, es @ (case p of
                         Fulfilled u \<Rightarrow> [ConsoleLog ''create chart successfully'']
                       | Rejected err \<Rightarrow> [UnhandledRejection err])))"

definition destroy :: "widget \<Rightarrow> widget \<times> effect list" where
  "destroy s =
     (let (s1, e1) = (if sdk s \<noteq> None then (s\<lparr>sdk := None\<rparr>, [SdkDestroy]) else (s, []));
          (s2, e2) = (if chart s1 \<noteq> None then (s1\<lparr>chart := None\<rparr>, [ChartRemove])
                      else (s1, []))
      in (s2, e1 @ e2))"

definition resize :: "widget \<Rightarrow> real option \<Rightarrow> real option \<Rightarrow> effect list" where
  "resize s w h = (if chart s \<noteq> None then [ChartResize w h] else [])"

section \<open>Notions used by the statements\<close>

text \<open>The calls on the series and on the time scale among a list of effects.\<close>

fun isChartCall :: "effect \<Rightarrow> bool" where
  "isChartCall (CandlestickSetData ps) = True"
| "isChartCall (CandlestickUpdate p) = True"
| "isChartCall (LineSetData ps) = True"
| "isChartCall (LineUpdate p) = True"
| "isChartCall (VolumeSetData ps) = True"
| "isChartCall (VolumeUpdate p) = True"
| "isChartCall FitContent = True"
| "isChartCall ScrollToRealTime = True"
| "isChartCall e = False"

definition chartCalls :: "effect list \<Rightarrow> effect list" where
  "chartCalls es = filter isChartCall es"

text \<open>The full replace and the single-point upsert on the active price series, which is
  the series that \<open>priceSeriesType\<close> selects: exactly one call. A widget whose
  \<open>priceSeriesType\<close> is \<open>undefined\<close> has no price series, and there is no call.\<close>

definition priceSetData ::
    "(int \<Rightarrow> int) \<Rightarrow> price_series_type option \<Rightarrow> candle list \<Rightarrow> effect list" where
  "priceSetData tz ty cs =
     (case ty of
        Some Candle \<Rightarrow> [CandlestickSetData (map (convertCandleToChartData tz) cs)]
      | Some Line \<Rightarrow> [LineSetData (map (convertCandleToAreaData tz) cs)]
      | None \<Rightarrow> [])"

definition priceUpdate ::
    "(int \<Rightarrow> int) \<Rightarrow> price_series_type option \<Rightarrow> candle \<Rightarrow> effect list" where
  "priceUpdate tz ty c =
     (case ty of
        Some Candle \<Rightarrow> [CandlestickUpdate (convertCandleToChartData tz c)]
      | Some Line \<Rightarrow> [LineUpdate (convertCandleToAreaData tz c)]
      | None \<Rightarrow> [])"

text \<open>The widget between a successful \<open>initializeChart\<close> and \<open>destroy\<close>: it holds the chart,
  the series that \<open>priceSeriesType\<close> selects, and the volume series exactly when
  \<open>showVolume\<close> is \<open>true\<close>.\<close>

definition ready :: "widget \<Rightarrow> bool" where
  "ready s =
     (chart s \<noteq> None
      \<and> (case priceSeriesType (options s) of
           Some Candle \<Rightarrow> candlestickSeries s \<noteq> None
         | Some Line \<Rightarrow> lineSeries s \<noteq> None
         | None \<Rightarrow> True)
      \<and> ((showVolume (options s) = Some True) = (volumeSeries s \<noteq> None)))"

text \<open>The transport reports connected within the ceiling: some run finds it connected no
  later than \<open>maxWaitMs\<close> after the start.\<close>

definition connectedWithin :: "int \<Rightarrow> int \<Rightarrow> poll list \<Rightarrow> bool" where
  "connectedWithin startTime maxWaitMs polls =
     list_ex (\<lambda>p. isConnected p \<and> now p - startTime \<le> maxWaitMs) polls"

section \<open>Concrete inputs\<close>

text \<open>A viewer in UTC: the timezone offset is 0 minutes at every instant.\<close>

definition utc :: "int \<Rightarrow> int" where
  "utc ms = 0"

text \<open>A document whose only element has the id \<open>chart\<close>.\<close>

definition ex_dom :: dom where
  "ex_dom =
     \<lparr>getElementById = (\<lambda>i. if i = ''chart'' then Some (HtmlElement ''chart'') else None),
      querySelector = (\<lambda>q. if q = ''#chart'' then Inr (Some (HtmlElement ''chart''))
                           else Inr None)\<rparr>"

text \<open>\<open>{container: sel, tokenId: '1-0xabc', showVolume: true}\<close>.\<close>

definition ex_opts :: "string \<Rightarrow> widget_options" where
  "ex_opts sel =
     \<lparr>container_opt = Selector sel,
      tokenId_opt = ''1-0xabc'',
      symbol_opt = None,
      height_opt = None,
      width_opt = None,
      showVolume_opt = Passed (Some True),
      priceSeriesType_opt = Omitted,
      theme_opt = Omitted,
      legendStyle_opt = Omitted,
      onError_opt = False,
      onDataUpdate_opt = False,
      onTrade_opt = False,
      onConnectionChange_opt = False\<rparr>"

text \<open>The widget that \<open>create\<close> leaves for \<open>ex_opts ''#chart''\<close> in \<open>ex_dom\<close>, after a
  first delivery that carried no candle.\<close>

definition ex_widget :: widget where
  "ex_widget =
     \<lparr>chart = Some (ChartApi (HtmlElement ''chart'')),
      legendElement = Some LegendElement,
      candlestickSeries = Some CandlestickSeries,
      lineSeries = None,
      volumeSeries = Some HistogramSeries,
      sdk = Some CryptoChartSDK,
      chartData = \<lparr>candles = [], lastUpdate = None, isLoading = False, error = None\<rparr>,
      currentPrice = None,
      priceChange = 0,
      previousCandleCount = 0,
      isInitialLoad = False,
      options = withDefaults (ex_opts ''#chart''),
      previousPrice = 0\<rparr>"

definition ex_candle :: "int \<Rightarrow> real \<Rightarrow> real \<Rightarrow> candle" where
  "ex_candle ts o_price vol =
     \<lparr>Timestamp = ts, OpenPrice = o_price, HighPrice = o_price + 3, LowPrice = o_price - 1,
      ClosePrice = o_price + 2, VolumeIn = vol, VolumeOut = 1, TransactionCount = None\<rparr>"

definition ex_data :: "candle list \<Rightarrow> chart_data" where
  "ex_data cs = \<lparr>candles = cs, lastUpdate = None, isLoading = False, error = None\<rparr>"

text \<open>\<open>ex_widget\<close> after a delivery of one candle with timestamp 600.\<close>

definition ex_loaded :: widget where
  "ex_loaded = ex_widget\<lparr>chartData := ex_data [ex_candle 600 10 100],
                           currentPrice := Some 12,
                           previousCandleCount := 1\<rparr>"

definition ex_trade :: "int \<Rightarrow> trade" where
  "ex_trade tm = \<lparr>Price = 15, Amount = 2, USD = 30, TradeTime = tm\<rparr>"

text \<open>The runs of a wait whose timers fire on time: \<open>n\<close> runs, 100 ms apart from \<open>t\<close> on,
  that find the transport not connected, and one more run that finds the status
  \<open>final\<close>.\<close>

fun ex_polls :: "nat \<Rightarrow> int \<Rightarrow> bool \<Rightarrow> poll list" where
  "ex_polls 0 t final = [\<lparr>isConnected = final, now = t\<rparr>]"
| "ex_polls (Suc n) t final = \<lparr>isConnected = False, now = t\<rparr> # ex_polls n (t + 100) final"

text \<open>\<open>ex_widget\<close> after a delivery of two minute candles, and a crosshair over the
  candlestick series.\<close>

definition ex_hover :: widget where
  "ex_hover = ex_widget\<lparr>chartData := ex_data [ex_candle 600 10 100, ex_candle 660 12 200],
                         currentPrice := Some 14,
                         priceChange := 40,
                         previousCandleCount := 2\<rparr>"

definition ex_bar :: bar where
  "ex_bar = \<lparr>bar_time = 660, bar_open = 12, bar_high = 15, bar_low = 11, bar_close = 14\<rparr>"

definition ex_crosshair :: "int \<Rightarrow> crosshair" where
  "ex_crosshair t =
     \<lparr>cross_time = Some t,
      cross_seriesData = Some (\<lambda>series. if series = CandlestickSeries then Some ex_bar else None)\<rparr>"

text \<open>\<open>ex_widget\<close> as it is when the caller passed \<open>theme: undefined\<close> as well.\<close>

definition ex_no_theme :: widget where
  "ex_no_theme = ex_widget\<lparr>options := (options ex_widget)\<lparr>theme := None\<rparr>\<rparr>"

section \<open>Adapter fidelity\<close>

text \<open>
  C6. For every candle \<open>c\<close>, the price-bar point has open, high, low and close equal to the
  candle's fields, the line point has value equal to the close price, the volume point has
  value equal to the inbound volume, and all three carry the time
  \<open>Timestamp c - offset\<close>, where the offset in seconds is the environment's timezone
  offset at the candle's own instant (\<open>Timestamp c * 1000\<close> ms), in minutes, times 60.
\<close>

theorem adapter_fidelity:
  "bar_close (convertCandleToChartData tz c) = ClosePrice c
   \<and> bar_open (convertCandleToChartData tz c) = OpenPrice c
   \<and> bar_high (convertCandleToChartData tz c) = HighPrice c
   \<and> bar_low (convertCandleToChartData tz c) = LowPrice c
   \<and> line_value (convertCandleToAreaData tz c) = ClosePrice c
   \<and> vol_value (convertCandleToVolumeData tz th c) = VolumeIn c
   \<and> bar_time (convertCandleToChartData tz c) = Timestamp c - tz (Timestamp c * 1000) * 60
   \<and> line_time (convertCandleToAreaData tz c) = Timestamp c - tz (Timestamp c * 1000) * 60
   \<and> vol_time (convertCandleToVolumeData tz th c) = Timestamp c - tz (Timestamp c * 1000) * 60"
  by (simp add: convertCandleToChartData_def convertCandleToAreaData_def
      convertCandleToVolumeData_def localTimestamp_def timezoneOffsetSeconds_def Let_def)

section \<open>Auxiliary facts\<close>

lemma chartCalls_append: "chartCalls (xs @ ys) = chartCalls xs @ chartCalls ys"
  by (simp add: chartCalls_def)

lemma chartCalls_updateLegend: "chartCalls (updateLegend tz s p) = []"
  by (simp add: chartCalls_def updateLegend_def Let_def)

lemma chartCalls_updateSingleCandle:
  "chartCalls (snd (updateSingleCandle tz s c)) = snd (updateSingleCandle tz s c)"
  by (simp add: chartCalls_def updateSingleCandle_def Let_def)

lemma chartCalls_updateChart: "chartCalls (updateChart tz s d) = updateChart tz s d"
  by (simp add: chartCalls_def updateChart_def)

lemma truthy_theme_iff: "truthy_theme th = (th \<noteq> None)"
  by (simp add: truthy_theme_def split: option.splits theme.splits)

lemma updateSingleCandle_ready:
  "ready s \<Longrightarrow>
   snd (updateSingleCandle tz s c) =
     priceUpdate tz (priceSeriesType (options s)) c
     @ (if theme (options s) \<noteq> None \<and> showVolume (options s) = Some True
        then [VolumeUpdate (convertCandleToVolumeData tz (theme (options s)) c)] else [])
     @ [ScrollToRealTime]"
  by (auto simp add: ready_def updateSingleCandle_def priceUpdate_def truthy_theme_iff Let_def
      split: price_series_type.splits option.splits)

lemma updateChart_ready:
  "ready s \<Longrightarrow> candles d \<noteq> [] \<Longrightarrow>
   updateChart tz s d =
     priceSetData tz (priceSeriesType (options s)) (candles d)
     @ (if showVolume (options s) = Some True
        then [VolumeSetData (map (convertCandleToVolumeData tz (theme (options s))) (candles d))]
        else [])
     @ [FitContent]"
  by (auto simp add: ready_def updateChart_def priceSetData_def
      split: price_series_type.splits option.splits)

lemma chartCalls_Nil: "chartCalls [] = []"
  by (simp add: chartCalls_def)

lemma chartCalls_Cons:
  "chartCalls (e # es) = (if isChartCall e then e # chartCalls es else chartCalls es)"
  by (simp add: chartCalls_def)

lemma fst_updateSingleCandle:
  "fst (updateSingleCandle tz s c) = s\<lparr>currentPrice := Some (ClosePrice c)\<rparr>"
  by (simp add: updateSingleCandle_def Let_def)

lemma chartCalls_handleChartUpdate:
  "chartCalls (snd (handleChartUpdate tz s d)) =
     (if \<not> isInitialLoad s \<and> candles d \<noteq> []
         \<and> int (length (candles d)) - int (previousCandleCount s) \<ge> 0
         \<and> int (length (candles d)) - int (previousCandleCount s) \<le> 50
      then (if int (length (candles d)) - int (previousCandleCount s) = 0
               \<or> int (length (candles d)) - int (previousCandleCount s) = 1
            then snd (updateSingleCandle tz (s\<lparr>chartData := d\<rparr>) (last (candles d)))
            else updateChart tz (s\<lparr>chartData := d\<rparr>) d)
      else updateChart tz (s\<lparr>chartData := d\<rparr>) d)"
  unfolding handleChartUpdate_def Let_def MAX_INCREMENTAL_CANDLES_def
  by (simp add: case_prod_beta chartCalls_append chartCalls_updateLegend
      chartCalls_updateSingleCandle chartCalls_updateChart chartCalls_Nil chartCalls_Cons
      fst_updateSingleCandle)

text \<open>The concrete widgets are states that the widget reaches.\<close>

lemmas ex_defs = ex_widget_def ex_data_def ex_candle_def ex_trade_def ex_opts_def
  withDefaults_def utc_def

lemma ready_ex_widget: "ready ex_widget"
  by (simp add: ready_def ex_defs)

lemma ex_widget_reachable:
  "create ex_dom utc Resolves (ex_opts ''#chart'') = Inr (w, es) \<Longrightarrow>
   fst (handleChartUpdate utc w (ex_data [])) = ex_widget"
  by (auto simp add: create_def initialize_def initializeSDK_def initializeChart_def
      resolveContainer_def loadTokenData_def newWidget_def ex_dom_def ex_defs
      handleChartUpdate_def updateChart_def Let_def)

lemma ex_no_theme_reachable:
  "create ex_dom utc Resolves ((ex_opts ''#chart'')\<lparr>theme_opt := Passed None\<rparr>) = Inr (w, es) \<Longrightarrow>
   fst (handleChartUpdate utc w (ex_data [])) = ex_no_theme"
  by (auto simp add: create_def initialize_def initializeSDK_def initializeChart_def
      resolveContainer_def loadTokenData_def newWidget_def ex_dom_def ex_defs ex_no_theme_def
      handleChartUpdate_def updateChart_def Let_def)

lemma ready_ex_no_theme: "ready ex_no_theme"
  by (simp add: ready_def ex_no_theme_def ex_defs)

lemma ex_loaded_reachable:
  "fst (handleChartUpdate utc ex_widget (ex_data [ex_candle 600 10 100])) = ex_loaded"
  by (simp add: handleChartUpdate_def updateSingleCandle_def MAX_INCREMENTAL_CANDLES_def
      Let_def ex_loaded_def ex_defs)

section \<open>Reconciler: live update\<close>

text \<open>
  C2 (amended). For a snapshot delivery of \<open>N \<ge> 1\<close> candles to a ready widget with previous
  count \<open>P\<close>, where \<open>N - P\<close> is 0 or 1 and the delivery is not the first one since
  (re)subscription, the calls on the series and the time scale are: exactly one
  single-point upsert of the last candle on the active price series; then, on the volume
  series, none if volume is not enabled and exactly one if volume is enabled and the
  \<open>theme\<close> option is set; then the request to scroll to real time. No \<open>setData\<close> occurs. For
  a widget with volume enabled whose \<open>theme\<close> option is \<open>undefined\<close> the statement leaves open
  whether the volume series receives the upsert.
\<close>

theorem live_update_single_upsert:
  assumes "ready s" and "\<not> isInitialLoad s" and "candles d \<noteq> []"
    and "int (length (candles d)) - int (previousCandleCount s) = 0
         \<or> int (length (candles d)) - int (previousCandleCount s) = 1"
  shows "\<exists>vol. chartCalls (snd (handleChartUpdate tz s d)) =
                 priceUpdate tz (priceSeriesType (options s)) (last (candles d))
                 @ vol @ [ScrollToRealTime]
           \<and> (vol = []
                \<or> vol = [VolumeUpdate
                           (convertCandleToVolumeData tz (theme (options s)) (last (candles d)))])
           \<and> (showVolume (options s) \<noteq> Some True \<longrightarrow> vol = [])
           \<and> (showVolume (options s) = Some True \<and> theme (options s) \<noteq> None \<longrightarrow>
                vol = [VolumeUpdate
                         (convertCandleToVolumeData tz (theme (options s)) (last (candles d)))])"
proof -
  have r: "ready (s\<lparr>chartData := d\<rparr>)"
    using assms(1) by (simp add: ready_def split: price_series_type.splits option.splits)
  have "chartCalls (snd (handleChartUpdate tz s d)) =
          snd (updateSingleCandle tz (s\<lparr>chartData := d\<rparr>) (last (candles d)))"
    using assms(2-4) by (auto simp add: chartCalls_handleChartUpdate)
  then have "chartCalls (snd (handleChartUpdate tz s d)) =
          priceUpdate tz (priceSeriesType (options s)) (last (candles d))
          @ (if theme (options s) \<noteq> None \<and> showVolume (options s) = Some True
             then [VolumeUpdate
                     (convertCandleToVolumeData tz (theme (options s)) (last (candles d)))]
             else [])
          @ [ScrollToRealTime]"
    using updateSingleCandle_ready [OF r, of tz "last (candles d)"] by simp
  then show ?thesis
    by (intro exI [of _ "if theme (options s) \<noteq> None \<and> showVolume (options s) = Some True
             then [VolumeUpdate
                     (convertCandleToVolumeData tz (theme (options s)) (last (candles d)))]
             else []"]) simp
qed

theorem live_update_single_upsert_witness:
  "chartCalls (snd (handleChartUpdate utc ex_widget (ex_data [ex_candle 600 10 100]))) =
     [CandlestickUpdate \<lparr>bar_time = 600, bar_open = 10, bar_high = 13, bar_low = 9, bar_close = 12\<rparr>,
      VolumeUpdate \<lparr>vol_time = 600, vol_value = 100, vol_color = ''#26a69a40''\<rparr>,
      ScrollToRealTime]"
proof -
  have "\<not> isInitialLoad ex_widget" "candles (ex_data [ex_candle 600 10 100]) \<noteq> []"
    "int (length (candles (ex_data [ex_candle 600 10 100]))) - int (previousCandleCount ex_widget) = 0
     \<or> int (length (candles (ex_data [ex_candle 600 10 100]))) - int (previousCandleCount ex_widget) = 1"
    by (simp_all add: ex_defs)
  from live_update_single_upsert [OF ready_ex_widget this, of utc] obtain vol
    where c: "chartCalls (snd (handleChartUpdate utc ex_widget (ex_data [ex_candle 600 10 100])))
              = priceUpdate utc (priceSeriesType (options ex_widget))
                  (last (candles (ex_data [ex_candle 600 10 100])))
                @ vol @ [ScrollToRealTime]"
      and v: "showVolume (options ex_widget) = Some True \<and> theme (options ex_widget) \<noteq> None \<longrightarrow>
              vol = [VolumeUpdate
                       (convertCandleToVolumeData utc (theme (options ex_widget))
                          (last (candles (ex_data [ex_candle 600 10 100]))))]"
    by blast
  have "showVolume (options ex_widget) = Some True \<and> theme (options ex_widget) \<noteq> None"
    by (simp add: ex_defs)
  with v have "vol = [VolumeUpdate
                       (convertCandleToVolumeData utc (theme (options ex_widget))
                          (last (candles (ex_data [ex_candle 600 10 100]))))]"
    by blast
  with c show ?thesis
    by (simp add: ex_defs priceUpdate_def convertCandleToChartData_def
        convertCandleToVolumeData_def localTimestamp_def timezoneOffsetSeconds_def)
qed

text \<open>The claim as stated, without \<open>N \<ge> 1\<close>, fails: a second delivery that carries no
  candle (\<open>N = P = 0\<close>) makes no call at all, because \<open>isIncrementalUpdate\<close> requires
  \<open>currentCount > 0\<close> and \<open>updateChart\<close> returns at once on an empty list.\<close>

theorem live_update_empty_counterexample:
  "ready ex_widget \<and> \<not> isInitialLoad ex_widget
   \<and> int (length (candles (ex_data []))) - int (previousCandleCount ex_widget) = 0
   \<and> chartCalls (snd (handleChartUpdate utc ex_widget (ex_data []))) = []"
  by (simp add: ready_ex_widget chartCalls_handleChartUpdate updateChart_def)
    (simp add: ex_defs)

text \<open>In general, a delivery that carries no candle makes no call on a series or on the
  time scale, whatever the state of the widget.\<close>

lemma no_calls_on_empty_snapshot:
  "candles d = [] \<Longrightarrow> chartCalls (snd (handleChartUpdate tz s d)) = []"
  by (simp add: chartCalls_handleChartUpdate updateChart_def)

text \<open>The guard of the volume upsert. \<open>initializeChart\<close> and \<open>updateChart\<close> test \<open>showVolume\<close>,
  \<open>updateSingleCandle\<close> tests \<open>theme\<close>: for a caller that passed \<open>showVolume: true\<close> and
  \<open>theme: undefined\<close> the full replace sets the volume series and the live update does not
  upsert it.\<close>

lemma volume_upsert_tests_theme:
  "chartCalls (snd (handleChartUpdate utc (ex_no_theme\<lparr>isInitialLoad := True\<rparr>)
                      (ex_data [ex_candle 600 10 100]))) =
     [CandlestickSetData
        [\<lparr>bar_time = 600, bar_open = 10, bar_high = 13, bar_low = 9, bar_close = 12\<rparr>],
      VolumeSetData [\<lparr>vol_time = 600, vol_value = 100, vol_color = ''#26a69a40''\<rparr>],
      FitContent]
   \<and> chartCalls (snd (handleChartUpdate utc ex_no_theme (ex_data [ex_candle 600 10 100]))) =
     [CandlestickUpdate
        \<lparr>bar_time = 600, bar_open = 10, bar_high = 13, bar_low = 9, bar_close = 12\<rparr>,
      ScrollToRealTime]"
  by (simp add: chartCalls_handleChartUpdate)
    (simp add: updateChart_def updateSingleCandle_def truthy_theme_def Let_def
      ex_no_theme_def ex_defs convertCandleToChartData_def convertCandleToVolumeData_def
      localTimestamp_def timezoneOffsetSeconds_def)

section \<open>Reconciler: full replace\<close>

text \<open>
  C3 (amended). For a snapshot delivery of \<open>N \<ge> 1\<close> candles to a ready widget where it is
  the first delivery since (re)subscription, or \<open>N - P < 0\<close>, or \<open>N - P > 50\<close>, the calls on
  the series and the time scale are exactly: \<open>setData\<close> on the active price series with the
  conversion of every candle, in order; \<open>setData\<close> on the volume series with the
  conversion of every candle if volume is enabled; and the fit-to-content request.
\<close>

theorem full_replace:
  assumes "ready s" and "candles d \<noteq> []"
    and "isInitialLoad s
         \<or> int (length (candles d)) - int (previousCandleCount s) < 0
         \<or> int (length (candles d)) - int (previousCandleCount s) > 50"
  shows "chartCalls (snd (handleChartUpdate tz s d)) =
           priceSetData tz (priceSeriesType (options s)) (candles d)
           @ (if showVolume (options s) = Some True
              then [VolumeSetData
                      (map (convertCandleToVolumeData tz (theme (options s))) (candles d))]
              else [])
           @ [FitContent]"
proof -
  have r: "ready (s\<lparr>chartData := d\<rparr>)"
    using assms(1) by (simp add: ready_def split: price_series_type.splits option.splits)
  have "chartCalls (snd (handleChartUpdate tz s d)) = updateChart tz (s\<lparr>chartData := d\<rparr>) d"
    using assms(2-3) by (auto simp add: chartCalls_handleChartUpdate)
  then show ?thesis
    using updateChart_ready [OF r, of d tz] assms(2) by simp
qed

theorem full_replace_witness:
  "chartCalls (snd (handleChartUpdate utc (ex_widget\<lparr>isInitialLoad := True\<rparr>)
      (ex_data [ex_candle 600 10 100, ex_candle 660 12 200]))) =
     [CandlestickSetData
       [\<lparr>bar_time = 600, bar_open = 10, bar_high = 13, bar_low = 9, bar_close = 12\<rparr>,
        \<lparr>bar_time = 660, bar_open = 12, bar_high = 15, bar_low = 11, bar_close = 14\<rparr>],
      VolumeSetData
       [\<lparr>vol_time = 600, vol_value = 100, vol_color = ''#26a69a40''\<rparr>,
        \<lparr>vol_time = 660, vol_value = 200, vol_color = ''#26a69a40''\<rparr>],
      FitContent]"
proof -
  let ?s = "ex_widget\<lparr>isInitialLoad := True\<rparr>"
  let ?d = "ex_data [ex_candle 600 10 100, ex_candle 660 12 200]"
  have r: "ready ?s" by (simp add: ready_def ex_defs)
  have "candles ?d \<noteq> []"
    "isInitialLoad ?s \<or> int (length (candles ?d)) - int (previousCandleCount ?s) < 0
     \<or> int (length (candles ?d)) - int (previousCandleCount ?s) > 50"
    by (simp_all add: ex_defs)
  from full_replace [OF r this, of utc] show ?thesis
    by (simp add: ex_defs priceSetData_def convertCandleToChartData_def
        convertCandleToVolumeData_def localTimestamp_def timezoneOffsetSeconds_def)
qed

text \<open>The claim as stated, without \<open>N \<ge> 1\<close>, fails: a first delivery that carries no
  candle replaces nothing and requests no fit, because \<open>updateChart\<close> returns at once on
  an empty list.\<close>

theorem full_replace_empty_counterexample:
  "ready (ex_widget\<lparr>isInitialLoad := True\<rparr>) \<and> isInitialLoad (ex_widget\<lparr>isInitialLoad := True\<rparr>)
   \<and> chartCalls (snd (handleChartUpdate utc (ex_widget\<lparr>isInitialLoad := True\<rparr>) (ex_data []))) = []"
  by (simp add: chartCalls_handleChartUpdate updateChart_def)
    (simp add: ex_defs ready_def)

section \<open>Price change over the snapshot\<close>

text \<open>
  C10. After a snapshot delivery with at least 2 candles whose first candle has
  \<open>OpenPrice > 0\<close>, the stored price change is
  \<open>(last.ClosePrice - first.OpenPrice) / first.OpenPrice * 100\<close>; after a delivery with
  fewer than 2 candles, or whose first candle has \<open>OpenPrice \<le> 0\<close>, the stored price
  change is the one stored before.
\<close>

theorem price_change_after_snapshot:
  "(length (candles d) \<ge> 2 \<and> OpenPrice (hd (candles d)) > 0 \<longrightarrow>
      priceChange (fst (handleChartUpdate tz s d)) =
        (ClosePrice (last (candles d)) - OpenPrice (hd (candles d)))
          / OpenPrice (hd (candles d)) * 100)
   \<and> (length (candles d) < 2 \<or> OpenPrice (hd (candles d)) \<le> 0 \<longrightarrow>
      priceChange (fst (handleChartUpdate tz s d)) = priceChange s)"
  unfolding handleChartUpdate_def Let_def
  by (simp add: case_prod_beta fst_updateSingleCandle)

theorem price_change_after_snapshot_witness:
  "priceChange (fst (handleChartUpdate utc ex_widget
      (ex_data [ex_candle 600 10 100, ex_candle 660 12 200]))) = 40
   \<and> priceChange (fst (handleChartUpdate utc (ex_widget\<lparr>priceChange := 7\<rparr>)
      (ex_data [ex_candle 600 10 100]))) = 7"
  using price_change_after_snapshot [of "ex_data [ex_candle 600 10 100, ex_candle 660 12 200]" utc ex_widget]
    price_change_after_snapshot [of "ex_data [ex_candle 600 10 100]" utc "ex_widget\<lparr>priceChange := 7\<rparr>"]
  by (simp add: ex_defs)




section \<open>Trade merge\<close>



lemma updateLegend_hover:
  assumes "legendElement s \<noteq> None" and "chart s \<noteq> None"
    and "hoveredData s p = Some (t, data)"
  shows "\<exists>L. updateLegend tz s p = [SetLegendHtml L]
             \<and> lg_ohlc L = Some (ohlcHtml tz (candles (chartData s)) t data)"
  using assms by (simp add: updateLegend_def Let_def)

section \<open>Legend: per-bar metrics\<close>

text \<open>
  C7. For every matched hovered candle shown in the legend, the per-bar change percentage
  is \<open>(ClosePrice - OpenPrice) / OpenPrice * 100\<close> when \<open>OpenPrice > 0\<close> and 0 otherwise,
  and the per-bar fluctuation percentage is \<open>(HighPrice - LowPrice) / OpenPrice * 100\<close>
  when \<open>OpenPrice > 0\<close> and 0 otherwise.
\<close>

theorem legend_bar_metrics:
  assumes "legendElement s \<noteq> None" and "chart s \<noteq> None"
    and "hoveredData s p = Some (t, data)"
    and "matchingCandle tz (candles (chartData s)) t = Some m"
  shows "\<exists>L h. updateLegend tz s p = [SetLegendHtml L] \<and> lg_ohlc L = Some h
           \<and> hv_candleChange h =
               Some (if OpenPrice m > 0
                     then (ClosePrice m - OpenPrice m) / OpenPrice m * 100 else 0)
           \<and> hv_candleFluctuation h =
               Some (if OpenPrice m > 0
                     then (HighPrice m - LowPrice m) / OpenPrice m * 100 else 0)"
proof -
  from updateLegend_hover [OF assms(1-3), of tz] obtain L
    where L: "updateLegend tz s p = [SetLegendHtml L]"
      "lg_ohlc L = Some (ohlcHtml tz (candles (chartData s)) t data)"
    by blast
  have "hv_candleChange (ohlcHtml tz (candles (chartData s)) t data) =
          Some (if OpenPrice m > 0
                then (ClosePrice m - OpenPrice m) / OpenPrice m * 100 else 0)"
    "hv_candleFluctuation (ohlcHtml tz (candles (chartData s)) t data) =
          Some (if OpenPrice m > 0
                then (HighPrice m - LowPrice m) / OpenPrice m * 100 else 0)"
    using assms(4) by (simp_all add: ohlcHtml_def candleChange_def candleFluctuation_def)
  with L show ?thesis by blast
qed

lemma ex_hover_facts:
  "legendElement ex_hover \<noteq> None" "chart ex_hover \<noteq> None"
  "hoveredData ex_hover (Some (ex_crosshair 660)) = Some (660, ex_bar)"
  "candles (chartData ex_hover) = [ex_candle 600 10 100, ex_candle 660 12 200]"
  by (simp_all add: ex_hover_def ex_widget_def ex_crosshair_def hoveredData_def ex_data_def)

lemma ex_match:
  "matchingCandle utc [ex_candle 600 10 100, ex_candle 660 12 200] 660 = Some (ex_candle 660 12 200)"
  by (simp add: matchingCandle_def localTimestamp_def timezoneOffsetSeconds_def utc_def
      ex_candle_def)

theorem legend_bar_metrics_witness:
  "\<exists>L h. updateLegend utc ex_hover (Some (ex_crosshair 660)) = [SetLegendHtml L]
         \<and> lg_ohlc L = Some h
         \<and> hv_candleChange h = Some (50 / 3)
         \<and> hv_candleFluctuation h = Some (100 / 3)"
proof -
  have m: "matchingCandle utc (candles (chartData ex_hover)) 660 = Some (ex_candle 660 12 200)"
    by (simp add: ex_hover_facts(4) ex_match)
  from legend_bar_metrics [OF ex_hover_facts(1,2,3) m] show ?thesis
    by (simp add: ex_candle_def)
qed

section \<open>Legend: hover match\<close>


text \<open>With candles whose shifted timestamps are pairwise at least 60 seconds apart, as
  minute candles are, a crosshair that sits exactly on a candle matches that candle.\<close>

lemma hover_match_exact:
  assumes "k < length cs"
    and "\<forall>i < length cs. \<forall>j < i.
           \<bar>localTimestamp tz (Timestamp (cs ! j)) - localTimestamp tz (Timestamp (cs ! i))\<bar> \<ge> 60"
  shows "matchingCandle tz cs (localTimestamp tz (Timestamp (cs ! k))) = Some (cs ! k)"
proof -
  have "\<forall>j < k. \<not> \<bar>localTimestamp tz (Timestamp (cs ! j))
                       - localTimestamp tz (Timestamp (cs ! k))\<bar> < 60"
    using assms by fastforce
  with assms(1) show ?thesis
    unfolding matchingCandle_def find_Some_iff by (intro exI [of _ k]) simp
qed





section \<open>Container resolution\<close>

lemma initializeChart_unresolved:
  assumes "\<forall>el. resolveContainer d (container (options s)) \<noteq> Inr (Some el)"
  shows "\<exists>e. initializeChart d tz s = Inl e
             \<and> (resolveContainer d (container (options s)) = Inr None \<longrightarrow>
                  e = Error (''Chart container not found: ''
                             @ containerText (container (options s))))"
proof (cases "resolveContainer d (container (options s))")
  case (Inl e)
  then show ?thesis by (simp add: initializeChart_def)
next
  case (Inr r)
  with assms have "r = None" by (cases r) auto
  with Inr show ?thesis by (simp add: initializeChart_def)
qed

text \<open>
  C8 (amended). If the configured container does not resolve to an existing DOM element,
  \<open>initializeChart\<close> throws synchronously (the error \<open>Chart container not found: ...\<close>
  when the lookup yields \<open>null\<close>), which rejects the promise of the asynchronous
  \<open>initialize\<close>: no chart, series or legend is created and the token data is never
  requested. The constructor itself does not throw: \<open>create\<close> returns the widget, whose
  SDK has been constructed and whose transport connection has been opened, and the error
  is left as an unhandled rejection.
\<close>

theorem container_not_found:
  assumes "\<forall>el. resolveContainer d (container_opt opts) \<noteq> Inr (Some el)"
  shows "\<exists>e. initializeChart d tz ((newWidget (withDefaults opts))\<lparr>sdk := Some CryptoChartSDK\<rparr>)
               = Inl e
           \<and> (resolveContainer d (container_opt opts) = Inr None \<longrightarrow>
                e = Error (''Chart container not found: '' @ containerText (container_opt opts)))
           \<and> initialize d tz outcome (newWidget (withDefaults opts))
               = (((newWidget (withDefaults opts))\<lparr>sdk := Some CryptoChartSDK\<rparr>,
                   [SdkConstruct, SdkConnectWebSocket]), Rejected e)
           \<and> create d tz outcome opts
               = Inr ((newWidget (withDefaults opts))\<lparr>sdk := Some CryptoChartSDK\<rparr>,
                      [SdkConstruct, SdkConnectWebSocket, UnhandledRejection e])
           \<and> chart ((newWidget (withDefaults opts))\<lparr>sdk := Some CryptoChartSDK\<rparr>) = None"
proof -
  let ?s = "(newWidget (withDefaults opts))\<lparr>sdk := Some CryptoChartSDK\<rparr>"
  have c: "container (options ?s) = container_opt opts"
    by (simp add: newWidget_def withDefaults_def)
  from initializeChart_unresolved [of d ?s tz] assms c obtain e
    where e: "initializeChart d tz ?s = Inl e"
      "resolveContainer d (container_opt opts) = Inr None \<longrightarrow>
         e = Error (''Chart container not found: '' @ containerText (container_opt opts))"
    by auto
  have i: "initialize d tz outcome (newWidget (withDefaults opts))
             = ((?s, [SdkConstruct, SdkConnectWebSocket]), Rejected e)"
    using e(1) by (simp add: initialize_def initializeSDK_def)
  have "create d tz outcome opts
          = Inr (?s, [SdkConstruct, SdkConnectWebSocket, UnhandledRejection e])"
    by (simp add: create_def i)
  moreover have "chart ?s = None" by (simp add: newWidget_def)
  ultimately show ?thesis using e i by blast
qed

lemma ex_unresolved: "resolveContainer ex_dom (Selector ''#missing'') = Inr None"
  by (simp add: resolveContainer_def ex_dom_def)

theorem container_not_found_witness:
  "initializeChart ex_dom utc
       ((newWidget (withDefaults (ex_opts ''#missing'')))\<lparr>sdk := Some CryptoChartSDK\<rparr>)
     = Inl (Error ''Chart container not found: #missing'')
   \<and> initialize ex_dom utc Resolves (newWidget (withDefaults (ex_opts ''#missing'')))
       = (((newWidget (withDefaults (ex_opts ''#missing'')))\<lparr>sdk := Some CryptoChartSDK\<rparr>,
                   [SdkConstruct, SdkConnectWebSocket]),
          Rejected (Error ''Chart container not found: #missing''))"
proof -
  have c: "container_opt (ex_opts ''#missing'') = Selector ''#missing''"
    by (simp add: ex_opts_def)
  have h: "\<forall>el. resolveContainer ex_dom (container_opt (ex_opts ''#missing'')) \<noteq> Inr (Some el)"
    by (simp add: c ex_unresolved)
  from container_not_found [OF h, of utc Resolves] show ?thesis
    by (auto simp add: c ex_unresolved containerText_def)
qed

text \<open>The claim as stated, with the construction aborted, fails: for a selector that
  matches nothing \<open>create\<close> returns a widget.\<close>

theorem construction_not_aborted_counterexample:
  "resolveContainer ex_dom (container_opt (ex_opts ''#missing'')) = Inr None
   \<and> create ex_dom utc Resolves (ex_opts ''#missing'')
       = Inr ((newWidget (withDefaults (ex_opts ''#missing'')))\<lparr>sdk := Some CryptoChartSDK\<rparr>,
              [SdkConstruct, SdkConnectWebSocket,
               UnhandledRejection (Error ''Chart container not found: #missing'')])"
  by (simp add: create_def initialize_def initializeSDK_def initializeChart_def
      resolveContainer_def containerText_def newWidget_def withDefaults_def ex_opts_def
      ex_dom_def)

section \<open>Subscribe wait\<close>

lemma checkConnection_gives_up:
  "k < length polls \<Longrightarrow> now (polls ! k) - startTime > maxWaitMs \<Longrightarrow>
   \<forall>j \<le> k. \<not> isConnected (polls ! j) \<Longrightarrow>
   checkConnection startTime maxWaitMs polls = Some False"
proof (induction polls arbitrary: k)
  case Nil
  then show ?case by simp
next
  case (Cons p ps)
  from Cons.prems(3) have p: "\<not> isConnected p" by (auto dest: spec [of _ 0])
  show ?case
  proof (cases k)
    case 0
    with Cons.prems(2) p show ?thesis by simp
  next
    case (Suc k')
    with Cons.prems have "k' < length ps" "now (ps ! k') - startTime > maxWaitMs"
      "\<forall>j \<le> k'. \<not> isConnected (ps ! j)"
      by auto
    from Cons.IH [OF this] p show ?thesis by simp
  qed
qed

text \<open>
  C9 (amended). In the subscribe wait, if the transport reports not connected at every
  run of \<open>checkConnection\<close> up to and including the first run that reads the clock more
  than 5000 ms after the start of the wait, then the wait resolves \<open>false\<close>, and the
  delayed callback issues no subscribe call, invokes no \<open>onError\<close> and raises nothing;
  it assigns no field of the widget, so no error state is set. (The delays of 1000 ms
  before the wait and of 100 ms between two runs are timer delays; the model takes the
  clock readings of the runs as given.)
\<close>

theorem subscribe_wait_gives_up:
  assumes "k < length polls" and "now (polls ! k) - startTime > 5000"
    and "\<forall>j \<le> k. \<not> isConnected (polls ! j)"
  shows "waitForWebSocketConnection startTime polls = Some False
         \<and> subscribeWhenConnected s tok startTime polls s'
             = Some (Inr (if sdk s = None then s else s', []))"
  using checkConnection_gives_up [OF assms]
  by (simp add: waitForWebSocketConnection_def subscribeWhenConnected_def)

lemma length_ex_polls: "length (ex_polls n t final) = Suc n"
  by (induction n arbitrary: t) simp_all

lemma now_ex_polls: "j \<le> n \<Longrightarrow> now (ex_polls n t final ! j) = t + 100 * int j"
proof (induction n arbitrary: t j)
  case 0
  then show ?case by simp
next
  case (Suc n)
  then show ?case by (cases j) simp_all
qed

lemma isConnected_ex_polls:
  "j \<le> n \<Longrightarrow> isConnected (ex_polls n t final ! j) = (j = n \<and> final)"
proof (induction n arbitrary: t j)
  case 0
  then show ?case by simp
next
  case (Suc n)
  then show ?case by (cases j) simp_all
qed

text \<open>In general, a run that finds the transport connected resolves the wait \<open>true\<close>,
  whatever the clock reads at that run, when no earlier run has resolved it.\<close>

lemma checkConnection_accepts:
  "k < length polls \<Longrightarrow> isConnected (polls ! k) \<Longrightarrow>
   \<forall>j < k. \<not> isConnected (polls ! j) \<and> now (polls ! j) - startTime \<le> maxWaitMs \<Longrightarrow>
   checkConnection startTime maxWaitMs polls = Some True"
proof (induction polls arbitrary: k)
  case Nil
  then show ?case by simp
next
  case (Cons p ps)
  show ?case
  proof (cases k)
    case 0
    with Cons.prems(2) show ?thesis by simp
  next
    case (Suc k')
    with Cons.prems have p: "\<not> isConnected p" "now p - startTime \<le> maxWaitMs"
      by (auto dest: spec [of _ 0])
    from Suc Cons.prems have "k' < length ps" "isConnected (ps ! k')"
      "\<forall>j < k'. \<not> isConnected (ps ! j) \<and> now (ps ! j) - startTime \<le> maxWaitMs"
      by (auto dest: spec [of _ "Suc j" for j])
    from Cons.IH [OF this] p show ?thesis by simp
  qed
qed

theorem subscribe_wait_gives_up_witness:
  "waitForWebSocketConnection 0 (ex_polls 51 0 False) = Some False
   \<and> subscribeWhenConnected ex_widget ''1-0xabc'' 0 (ex_polls 51 0 False) ex_widget
       = Some (Inr (ex_widget, []))"
proof -
  have "51 < length (ex_polls 51 0 False)"
    by (simp add: length_ex_polls)
  moreover have "now (ex_polls 51 0 False ! 51) - 0 > 5000"
    by (simp add: now_ex_polls)
  moreover have "\<forall>j \<le> 51. \<not> isConnected (ex_polls 51 0 False ! j)"
    by (simp add: isConnected_ex_polls)
  ultimately show ?thesis
    using subscribe_wait_gives_up [of 51 "ex_polls 51 0 False" 0 ex_widget "''1-0xabc''" ex_widget]
    by simp
qed

text \<open>The claim as stated fails when the transport is not connected at any run within the
  ceiling and is connected at the first run after it: \<open>checkConnection\<close> tests the status
  before the elapsed time, so the wait resolves \<open>true\<close> and the subscribe call is issued.
  Here the runs are at 0, 100, ..., 5000 ms, not connected, and at 5100 ms, connected.\<close>

theorem subscribe_after_ceiling_counterexample:
  "\<not> connectedWithin 0 5000 (ex_polls 51 0 True)
   \<and> waitForWebSocketConnection 0 (ex_polls 51 0 True) = Some True
   \<and> subscribeWhenConnected ex_widget ''1-0xabc'' 0 (ex_polls 51 0 True) ex_widget
       = Some (Inr (ex_widget, [SdkSubscribe ''1-0xabc'']))"
proof -
  have w: "waitForWebSocketConnection 0 (ex_polls 51 0 True) = Some True"
    unfolding waitForWebSocketConnection_def by (simp add: eval_nat_numeral)
  have c: "\<not> connectedWithin 0 5000 (ex_polls 51 0 True)"
    unfolding connectedWithin_def by (simp add: eval_nat_numeral)
  show ?thesis
    by (simp add: c w subscribeWhenConnected_def ex_widget_def)
qed

section \<open>The ready widget\<close>

text \<open>\<open>initializeChart\<close> establishes \<open>ready\<close>, and the two data callbacks keep it.\<close>

lemma initializeChart_ready:
  "initializeChart d tz ((newWidget o')\<lparr>sdk := k\<rparr>) = Inr (s, es) \<Longrightarrow> ready s"
  by (auto simp add: initializeChart_def newWidget_def ready_def Let_def
      split: sum.splits option.splits price_series_type.splits if_splits)

lemma ready_cong:
  "chart s' = chart s \<Longrightarrow> candlestickSeries s' = candlestickSeries s \<Longrightarrow>
   lineSeries s' = lineSeries s \<Longrightarrow> volumeSeries s' = volumeSeries s \<Longrightarrow>
   options s' = options s \<Longrightarrow> ready s' = ready s"
  by (simp add: ready_def split: price_series_type.splits option.splits)

lemma handles_handleChartUpdate:
  "chart (fst (handleChartUpdate tz s d)) = chart s"
  "candlestickSeries (fst (handleChartUpdate tz s d)) = candlestickSeries s"
  "lineSeries (fst (handleChartUpdate tz s d)) = lineSeries s"
  "volumeSeries (fst (handleChartUpdate tz s d)) = volumeSeries s"
  "options (fst (handleChartUpdate tz s d)) = options s"
  unfolding handleChartUpdate_def Let_def
  by (simp_all add: case_prod_beta fst_updateSingleCandle)

lemma handles_handleTrade:
  "chart (fst (handleTrade tz s t)) = chart s"
  "candlestickSeries (fst (handleTrade tz s t)) = candlestickSeries s"
  "lineSeries (fst (handleTrade tz s t)) = lineSeries s"
  "volumeSeries (fst (handleTrade tz s t)) = volumeSeries s"
  "options (fst (handleTrade tz s t)) = options s"
  unfolding handleTrade_def Let_def
  by (simp_all add: case_prod_beta fst_updateSingleCandle)

lemma ready_handleChartUpdate: "ready (fst (handleChartUpdate tz s d)) = ready s"
  by (rule ready_cong) (rule handles_handleChartUpdate)+

lemma ready_handleTrade: "ready (fst (handleTrade tz s t)) = ready s"
  by (rule ready_cong) (rule handles_handleTrade)+

section \<open>After destroy\<close>

text \<open>\<open>destroy\<close> clears \<open>sdk\<close> and \<open>chart\<close> and keeps the three series handles and the
  legend element. Every use of \<open>chart\<close> in the callbacks is guarded, so the crosshair
  handler does nothing afterwards; the data callbacks still call \<open>setData\<close> and \<open>update\<close>
  on the series handles that are kept.\<close>

lemma destroy_keeps_series:
  "chart (fst (destroy s)) = None \<and> sdk (fst (destroy s)) = None
   \<and> candlestickSeries (fst (destroy s)) = candlestickSeries s
   \<and> lineSeries (fst (destroy s)) = lineSeries s
   \<and> volumeSeries (fst (destroy s)) = volumeSeries s"
  by (simp add: destroy_def Let_def case_prod_beta)

lemma crosshairMove_after_destroy: "crosshairMove tz (fst (destroy s)) p = []"
  by (simp add: crosshairMove_def updateLegend_def destroy_def Let_def case_prod_beta)

lemma series_calls_after_destroy:
  "chartCalls (snd (handleChartUpdate utc (fst (destroy ex_loaded))
                      (ex_data [ex_candle 600 10 100]))) =
     [CandlestickUpdate \<lparr>bar_time = 600, bar_open = 10, bar_high = 13, bar_low = 9,
                            bar_close = 12\<rparr>,
      VolumeUpdate \<lparr>vol_time = 600, vol_value = 100, vol_color = ''#26a69a40''\<rparr>]"
  by (simp add: chartCalls_handleChartUpdate)
    (simp add: destroy_def updateSingleCandle_def truthy_theme_def Let_def ex_loaded_def ex_defs
      convertCandleToChartData_def convertCandleToVolumeData_def localTimestamp_def
      timezoneOffsetSeconds_def)

end
